theory Spec2Isabelle
  imports Main "HOL-Library.Sublist" "HOL-Library.Char_ord" "HOL-Library.List_Lexorder"
begin

section \<open>Decoded activity files\<close>

text \<open>
  The program (\<^verbatim>\<open>garmin.py\<close>) reads a FIT activity file with the \<^verbatim>\<open>fit_tool\<close>
  library, rewrites the identity fields of two kinds of messages and uploads the result.
  The library is an external collaborator: a decoded file is the list of the messages of
  its records, in file order, definition records included; the file a builder makes of
  the messages handed to \<^verbatim>\<open>FitFileBuilder.add\<close> is the library's answer.

  The numeric codes of \<^verbatim>\<open>fit_tool.profile.profile_type\<close> and the message ids are
  declared by the library, not by this repository; they are taken as a parameter, so that
  nothing proved below depends on their values.
\<close>

record profile_type =
  DEVELOPMENT :: int
  GARMIN :: int
  WAHOO_FITNESS :: int
  EDGE_830 :: int
  CYCLING :: int
  FileIdMessage_ID :: nat
  DeviceInfoMessage_ID :: nat
  WorkoutMessage_ID :: nat

text \<open>The values of the FIT profile, used where a concrete profile is needed.\<close>

definition fit_profile :: profile_type where
  "fit_profile = \<lparr>DEVELOPMENT = 255, GARMIN = 1, WAHOO_FITNESS = 32, EDGE_830 = 3122,
     CYCLING = 2, FileIdMessage_ID = 0, DeviceInfoMessage_ID = 23, WorkoutMessage_ID = 26\<rparr>"

text \<open>
  The attributes the program reads and assigns. A getter of \<^verbatim>\<open>fit_tool\<close> returns
  \<^verbatim>\<open>None\<close> for a field the message does not carry, hence the options.
  \<open>remaining_fields\<close> stands for every field the program never touches.
\<close>

record device_info =
  manufacturer :: "int option"
  product :: "int option"
  garmin_product :: "int option"
  remaining_fields :: "(nat \<times> int list) list"

record file_id = device_info +
  time_created :: "int option"

record workout =
  workout_name :: "string option"
  sport :: "int option"

text \<open>
  A message is an object of one of the library's classes. \<open>DefinitionMessage g\<close> is the
  definition record of the messages with global id \<open>g\<close>; \<open>OtherMessage g fs\<close> is a data
  message of any class the program does not name.
\<close>

datatype message =
    FileIdMessage file_id
  | DeviceInfoMessage device_info
  | WorkoutMessage workout
  | DefinitionMessage nat
  | OtherMessage nat "(nat \<times> int list) list"

fun global_id :: "profile_type \<Rightarrow> message \<Rightarrow> nat" where
  "global_id P (FileIdMessage f) = FileIdMessage_ID P"
| "global_id P (DeviceInfoMessage d) = DeviceInfoMessage_ID P"
| "global_id P (WorkoutMessage w) = WorkoutMessage_ID P"
| "global_id P (DefinitionMessage g) = g"
| "global_id P (OtherMessage g fs) = g"

datatype error =
    FitDecodeError
  | TypeError
  | AttributeError
  | FileNotFoundError
  | GarthException
  | GarthHTTPError nat
  | IntervalsError
  | GarminConnectError
  | KeyError
  | ValueError

text \<open>
  A \<^verbatim>\<open>datetime\<close> is an instant, counted in microseconds since the epoch.
  \<^verbatim>\<open>datetime.fromtimestamp(message.time_created/1000.0, timezone.utc)\<close> takes
  milliseconds; on \<^verbatim>\<open>None\<close> the division raises \<^verbatim>\<open>TypeError\<close>.
\<close>

type_synonym datetime = int

definition fromtimestamp_ms :: "int option \<Rightarrow> error + datetime" where
  "fromtimestamp_ms t = (case t of None \<Rightarrow> Inl TypeError | Some ms \<Rightarrow> Inr (1000 * ms))"

section \<open>The record mutator\<close>

text \<open>
  The first block of the loop body of \<^verbatim>\<open>edit_fit\<close>: ``change file id to indicate file
  was saved by Edge 830''. It returns the message and the timestamp \<open>dt\<close>.
\<close>

definition change_file_id ::
  "profile_type \<Rightarrow> message \<Rightarrow> datetime option \<Rightarrow> error + (message \<times> datetime option)" where
  "change_file_id P message dt =
     (if global_id P message = FileIdMessage_ID P then
        (case message of
           FileIdMessage f \<Rightarrow>
             (case fromtimestamp_ms (time_created f) of
                Inl e \<Rightarrow> Inl e
              | Inr dt' \<Rightarrow>
                  if manufacturer f = Some (DEVELOPMENT P)
                  then Inr (FileIdMessage
                         (f\<lparr>product := Some (EDGE_830 P), manufacturer := Some (GARMIN P)\<rparr>),
                        Some dt')
                  else Inr (message, Some dt'))
         | _ \<Rightarrow> Inr (message, dt))
      else Inr (message, dt))"

text \<open>The second block: ``change device info messages''.\<close>

definition change_device_info :: "profile_type \<Rightarrow> message \<Rightarrow> message" where
  "change_device_info P message =
     (if global_id P message = DeviceInfoMessage_ID P then
        (case message of
           DeviceInfoMessage d \<Rightarrow>
             if manufacturer d = Some (DEVELOPMENT P) \<or> manufacturer d = Some 0
                \<or> manufacturer d = Some (WAHOO_FITNESS P)
             then DeviceInfoMessage
                    (d\<lparr>garmin_product := Some (EDGE_830 P), product := Some (EDGE_830 P),
                       manufacturer := Some (GARMIN P)\<rparr>)
             else message
         | _ \<Rightarrow> message)
      else message)"

text \<open>
  The loop over \<^verbatim>\<open>fit_file.records\<close>: both blocks, then \<^verbatim>\<open>builder.add(message)\<close>.
  The builder is the list of the messages added so far.
\<close>

fun edit_loop ::
  "profile_type \<Rightarrow> message list \<Rightarrow> message list \<Rightarrow> datetime option
     \<Rightarrow> error + (message list \<times> datetime option)" where
  "edit_loop P [] builder dt = Inr (builder, dt)"
| "edit_loop P (message # records) builder dt =
     (case change_file_id P message dt of
        Inl e \<Rightarrow> Inl e
      | Inr (message', dt') \<Rightarrow>
          edit_loop P records (builder @ [change_device_info P message']) dt')"

text \<open>
  The messages \<^verbatim>\<open>edit_fit\<close> adds to the builder, in the order of the calls to
  \<^verbatim>\<open>builder.add\<close>: the loop from an empty builder, then the workout message when
  \<^verbatim>\<open>name\<close> is truthy (a non-empty string).
\<close>

definition added_messages :: "profile_type \<Rightarrow> message list \<Rightarrow> string \<Rightarrow> error + message list" where
  "added_messages P records name =
     (case edit_loop P records [] None of
        Inl e \<Rightarrow> Inl e
      | Inr (builder, dt) \<Rightarrow>
          Inr (if name \<noteq> []
               then builder @ [WorkoutMessage \<lparr>workout_name = Some name, sport = Some (CYCLING P)\<rparr>]
               else builder))"

text \<open>
  What the loop adds to the builder for one input message (the timestamp left aside).
\<close>

definition rewritten :: "profile_type \<Rightarrow> message \<Rightarrow> message" where
  "rewritten P message =
     (case change_file_id P message None of
        Inl e \<Rightarrow> message
      | Inr (message', dt) \<Rightarrow> change_device_info P message')"

text \<open>A message on which the loop does not raise: a file id message carries its timestamp.\<close>

definition has_time :: "message \<Rightarrow> bool" where
  "has_time message =
     (case message of FileIdMessage f \<Rightarrow> time_created f \<noteq> None | _ \<Rightarrow> True)"

text \<open>The data records of a file: its records but the definition records.\<close>

definition is_definition :: "message \<Rightarrow> bool" where
  "is_definition message = (case message of DefinitionMessage g \<Rightarrow> True | _ \<Rightarrow> False)"

definition data_records :: "message list \<Rightarrow> message list" where
  "data_records records = filter (\<lambda>message. \<not> is_definition message) records"

section \<open>Paths and strings\<close>

text \<open>
  A \<^verbatim>\<open>pathlib\<close> path of the POSIX flavour: whether it has the root \<^verbatim>\<open>/\<close>, and its
  components. \<open>str\<close>, \<open>parent\<close>, \<open>path_name\<close> (the property \<^verbatim>\<open>name\<close>),
  \<open>stem\<close> and \<open>joinpath\<close> follow
  \<^verbatim>\<open>pathlib.PurePosixPath\<close> of Python 3.12, the version the program needs
  (\<^verbatim>\<open>glob(..., case_sensitive=False)\<close>).
\<close>

record path =
  root :: bool
  tail :: "string list"

fun join_parts :: "string list \<Rightarrow> string" where
  "join_parts [] = []"
| "join_parts [x] = x"
| "join_parts (x # y # ys) = x @ ''/'' @ join_parts (y # ys)"

definition str :: "path \<Rightarrow> string" where
  "str p =
     (if tail p = [] then (if root p then ''/'' else ''.'')
      else (if root p then ''/'' else []) @ join_parts (tail p))"

fun split_sep :: "string \<Rightarrow> string list" where
  "split_sep [] = [[]]"
| "split_sep (c # s) =
     (if c = CHR ''/'' then [] # split_sep s
      else (case split_sep s of [] \<Rightarrow> [[c]] | x # xs \<Rightarrow> (c # x) # xs))"

definition parse_parts :: "string \<Rightarrow> string list" where
  "parse_parts s = filter (\<lambda>x. x \<noteq> [] \<and> x \<noteq> ''.'') (split_sep s)"

definition joinpath :: "path \<Rightarrow> string \<Rightarrow> path" where
  "joinpath p s =
     (if s \<noteq> [] \<and> hd s = CHR ''/'' then \<lparr>root = True, tail = parse_parts s\<rparr>
      else p\<lparr>tail := tail p @ parse_parts s\<rparr>)"

definition parent :: "path \<Rightarrow> path" where
  "parent p = p\<lparr>tail := butlast (tail p)\<rparr>"

definition path_name :: "path \<Rightarrow> string" where
  "path_name p = (if tail p = [] then [] else last (tail p))"

text \<open>\<^verbatim>\<open>s.rfind('.')\<close>, with \<open>None\<close> for Python's \<open>-1\<close>.\<close>

definition rfind_dot :: "string \<Rightarrow> nat option" where
  "rfind_dot s =
     (if CHR ''.'' \<in> set s
      then Some (length s - 1 - length (takeWhile (\<lambda>c. c \<noteq> CHR ''.'') (rev s)))
      else None)"

definition stem :: "path \<Rightarrow> string" where
  "stem p =
     (case rfind_dot (path_name p) of
        None \<Rightarrow> path_name p
      | Some i \<Rightarrow>
          if 0 < i \<and> i < length (path_name p) - 1 then take i (path_name p)
          else path_name p)"

text \<open>
  \<^verbatim>\<open>s.replace(old, new)\<close>: every occurrence of \<open>old\<close>, left to right, without overlap.
\<close>

function replace :: "string \<Rightarrow> string \<Rightarrow> string \<Rightarrow> string" where
  "replace old new [] = (if old = [] then new else [])"
| "replace old new (c # s) =
     (if old = [] then new @ c # replace old new s
      else if prefix old (c # s) then new @ replace old new (drop (length old) (c # s))
      else c # replace old new s)"
  by pat_completeness auto
termination
  by (relation "measure (\<lambda>(old, new, s). length s)") auto

text \<open>\<^verbatim>\<open>s.strip(chars)\<close> and \<^verbatim>\<open>s.endswith(suffix)\<close>.\<close>

definition strip :: "string \<Rightarrow> string \<Rightarrow> string" where
  "strip chars s =
     rev (dropWhile (\<lambda>c. c \<in> set chars) (rev (dropWhile (\<lambda>c. c \<in> set chars) s)))"

definition endswith :: "string \<Rightarrow> string \<Rightarrow> bool" where
  "endswith s suff = suffix suff s"

text \<open>
  The pattern \<^verbatim>\<open>*.fit\<close> matched against an entry name without regard to case: the
  name ends with \<^verbatim>\<open>.fit\<close> once its ASCII letters are lowered.
\<close>

definition lower :: "char \<Rightarrow> char" where
  "lower c =
     (case map_of (zip ''ABCDEFGHIJKLMNOPQRSTUVWXYZ'' ''abcdefghijklmnopqrstuvwxyz'') c of
        None \<Rightarrow> c
      | Some l \<Rightarrow> l)"

definition fnmatch_fit :: "string \<Rightarrow> bool" where
  "fnmatch_fit n = endswith (map lower n) ''.fit''"

section \<open>The directory scan\<close>

text \<open>
  \<^verbatim>\<open>dir.glob('*.fit', case_sensitive=False)\<close> over the entries of the directory, in the
  order the operating system lists them: each matching entry name becomes a child path.
\<close>

definition glob_fit :: "path \<Rightarrow> string list \<Rightarrow> path list" where
  "glob_fit dir entries = map (\<lambda>n. dir\<lparr>tail := tail dir @ [n]\<rparr>) (filter fnmatch_fit entries)"

text \<open>
  The list \<^verbatim>\<open>files\<close> of \<^verbatim>\<open>upload_all\<close>: the globbed paths as strings, the directory's
  string replaced by nothing and slashes and backslashes stripped from both ends, then the
  names ending with \<^verbatim>\<open>_modified.fit\<close> and the names of the ledger removed.
\<close>

definition strip_dir :: "path \<Rightarrow> string \<Rightarrow> string" where
  "strip_dir dir i = strip [CHR 0x5C] (strip ''/'' (replace (str dir) [] i))"

definition candidates :: "path \<Rightarrow> string list \<Rightarrow> string list \<Rightarrow> string list" where
  "candidates dir entries uploaded_files =
     (let files = map str (glob_fit dir entries);
          files = map (strip_dir dir) files;
          files = filter (\<lambda>i. \<not> endswith i ''_modified.fit'') files;
          files = filter (\<lambda>i. i \<notin> set uploaded_files) files
      in files)"

section \<open>The world outside the program\<close>

text \<open>
  The collaborators of the program, as the answers they give: the directory listing, the
  decoder and the builder, the two credentials of the naming service and its activity
  list, the upload client and the activity service used for renaming. An answer \<open>Inl e\<close>
  (or \<open>Some e\<close> where nothing is returned) is the exception the call raises.

  \<open>build\<close> is \<^verbatim>\<open>FitFileBuilder(auto_define=True)\<close> followed by \<^verbatim>\<open>build()\<close>: the
  records of the file it makes of the messages added to it. With that option the builder
  writes definition records of its own, so the records are not the added messages.
\<close>

text \<open>
  An activity of the naming service is a dictionary: a key is absent (subscripting
  raises \<^verbatim>\<open>KeyError\<close>), or holds \<^verbatim>\<open>None\<close>, or holds a value. A start date that is a
  string is what \<^verbatim>\<open>datetime.fromisoformat\<close> makes of it: malformed (\<^verbatim>\<open>ValueError\<close>),
  naive (subtracting the aware \<open>dt\<close> raises \<^verbatim>\<open>TypeError\<close>) or an aware instant.
\<close>

datatype 'a item = Absent | Null | Holds 'a

datatype isoformat = Malformed | Naive datetime | Aware datetime

record activity =
  oauth_client_name :: "string item"
  start_date :: "isoformat item"
  activity_name :: "string item"

text \<open>
  An activity of the renaming service: what \<^verbatim>\<open>strptime\<close> and \<^verbatim>\<open>astimezone\<close> make of
  \<^verbatim>\<open>activity["startTimeLocal"]\<close> (the instant, or the exception: \<^verbatim>\<open>KeyError\<close> for a
  missing key, \<^verbatim>\<open>ValueError\<close> for another format), and the id when the key is there.
\<close>

record garmin_activity =
  startTimeLocal :: "error + datetime"
  activityId :: "nat option"

record env =
  scandir :: "path \<Rightarrow> string list"
  from_file :: "string \<Rightarrow> error + message list"
  build :: "message list \<Rightarrow> message list"
  INTERVALS_ATHLETEID :: "string option"
  INTERVALS_APIKEY :: "string option"
  activities_list :: "datetime \<Rightarrow> error + activity list"
  garth_login :: "error option"
  client_upload :: "string \<Rightarrow> error option"
  get_activities_by_date :: "datetime \<Rightarrow> error + garmin_activity list"
  set_activity_name :: "nat \<Rightarrow> string \<Rightarrow> error option"
  tempfile_name :: "nat \<Rightarrow> path"

text \<open>
  What a run changes: the ledger file \<^verbatim>\<open>.uploaded_files.json\<close> of the directory
  (\<open>None\<close> while it does not exist), whether a stored session can be resumed, the number of
  temporary files made so far, and the trace of the writes of activity files and of the
  remote calls, oldest first.
\<close>

datatype effect =
    FitWrite string "message list"
  | IntervalsList datetime
  | GarthLogin
  | GarthUpload string
  | GarminList datetime
  | GarminSetName nat string

record state =
  ledger_file :: "string list option"
  garth_session :: bool
  tempfiles :: nat
  effects :: "effect list"

definition emit :: "effect \<Rightarrow> state \<Rightarrow> state" where
  "emit e s = s\<lparr>effects := effects s @ [e]\<rparr>"

text \<open>
  The effects that leave something behind: a written activity file, an upload, and the
  calls to the activity service that renames. The name lookup and a login do not.
\<close>

definition persistent :: "effect \<Rightarrow> bool" where
  "persistent e =
     (case e of
        FitWrite p built \<Rightarrow> True
      | GarthUpload p \<Rightarrow> True
      | GarminList dt \<Rightarrow> True
      | GarminSetName i n \<Rightarrow> True
      | IntervalsList dt \<Rightarrow> False
      | GarthLogin \<Rightarrow> False)"

section \<open>Timestamp and name\<close>

text \<open>The loop of \<^verbatim>\<open>get_date_from_fit\<close>: the first file id message decides.\<close>

fun get_date_loop :: "profile_type \<Rightarrow> message list \<Rightarrow> error + datetime option" where
  "get_date_loop P [] = Inr None"
| "get_date_loop P (message # records) =
     (if global_id P message = FileIdMessage_ID P then
        (case message of
           FileIdMessage f \<Rightarrow>
             (case fromtimestamp_ms (time_created f) of
                Inl e \<Rightarrow> Inl e
              | Inr dt \<Rightarrow> Inr (Some dt))
         | _ \<Rightarrow> get_date_loop P records)
      else get_date_loop P records)"

definition get_date_from_fit :: "profile_type \<Rightarrow> env \<Rightarrow> path \<Rightarrow> error + datetime option" where
  "get_date_from_fit P E fit_path =
     (case from_file E (str fit_path) of
        Inl e \<Rightarrow> Inl e
      | Inr records \<Rightarrow> get_date_loop P records)"

text \<open>
  The loop of \<^verbatim>\<open>get_name_from_intervals\<close> over the listed activities: the first one
  recorded by the simulator that starts within 15 seconds of \<open>dt\<close> gives the name. The
  start date is read for the simulator's activities only, the name for the match only
  (a name that is \<^verbatim>\<open>None\<close> is falsy wherever it is used, as the empty string is).
\<close>

fun find_activity :: "datetime \<Rightarrow> activity list \<Rightarrow> error + string" where
  "find_activity dt [] = Inr []"
| "find_activity dt (a # activities) =
     (case oauth_client_name a of
        Absent \<Rightarrow> Inl KeyError
      | Null \<Rightarrow> find_activity dt activities
      | Holds client \<Rightarrow>
          if client = ''Training Peaks Virtual'' then
            (case start_date a of
               Absent \<Rightarrow> Inl KeyError
             | Null \<Rightarrow> Inl TypeError
             | Holds Malformed \<Rightarrow> Inl ValueError
             | Holds (Naive t) \<Rightarrow> Inl TypeError
             | Holds (Aware t) \<Rightarrow>
                 if \<bar>t - dt\<bar> \<le> 15000000 then
                   (case activity_name a of
                      Absent \<Rightarrow> Inl KeyError
                    | Null \<Rightarrow> Inr []
                    | Holds n \<Rightarrow> Inr n)
                 else find_activity dt activities)
          else find_activity dt activities)"

text \<open>
  \<^verbatim>\<open>get_name_from_intervals\<close>. With both credentials set, \<^verbatim>\<open>dt.strftime\<close> is
  called first: on \<^verbatim>\<open>None\<close> it raises \<^verbatim>\<open>AttributeError\<close>.
\<close>

definition get_name_from_intervals ::
  "env \<Rightarrow> state \<Rightarrow> datetime option \<Rightarrow> (error + string) \<times> state" where
  "get_name_from_intervals E s dt =
     (if INTERVALS_ATHLETEID E = None \<or> INTERVALS_APIKEY E = None then (Inr [], s)
      else
        (case dt of
           None \<Rightarrow> (Inl AttributeError, s)
         | Some t \<Rightarrow>
             (case activities_list E t of
                Inl e \<Rightarrow> (Inl e, emit (IntervalsList t) s)
              | Inr activities \<Rightarrow>
                  (find_activity t activities, emit (IntervalsList t) s))))"

section \<open>Editing and uploading one file\<close>

text \<open>
  \<^verbatim>\<open>edit_fit\<close>: decode, choose the output path, add the messages to the builder,
  build the modified file, and write it unless \<^verbatim>\<open>dryrun\<close>. A path object is
  truthy, so \<^verbatim>\<open>not output\<close> holds for \<^verbatim>\<open>None\<close> only. The encoding errors
  of \<^verbatim>\<open>builder.build()\<close> are left out: the builder is taken to answer.
\<close>

definition edit_fit ::
  "profile_type \<Rightarrow> env \<Rightarrow> state \<Rightarrow> path \<Rightarrow> path option \<Rightarrow> bool \<Rightarrow> string
     \<Rightarrow> (error + path) \<times> state" where
  "edit_fit P E s fit_path output dryrun name =
     (case from_file E (str fit_path) of
        Inl e \<Rightarrow> (Inl e, s)
      | Inr records \<Rightarrow>
          (let output' =
                 (case output of
                    None \<Rightarrow> joinpath (parent fit_path) (stem fit_path @ ''_modified.fit'')
                  | Some out \<Rightarrow> out)
           in case added_messages P records name of
                Inl e \<Rightarrow> (Inl e, s)
              | Inr added \<Rightarrow>
                  (let modified_file = build E added
                   in (Inr output',
                       if \<not> dryrun then emit (FitWrite (str output') modified_file) s
                       else s))))"

text \<open>
  \<^verbatim>\<open>find_and_set_garmin_activity_name\<close>: every listed activity that starts less than
  10 seconds from \<open>dt\<close> is renamed by \<^verbatim>\<open>modify_name\<close>.
\<close>

fun rename_loop ::
  "env \<Rightarrow> datetime \<Rightarrow> string \<Rightarrow> garmin_activity list \<Rightarrow> state \<Rightarrow> (error + unit) \<times> state" where
  "rename_loop E dt name [] s = (Inr (), s)"
| "rename_loop E dt name (a # activities) s =
     (case startTimeLocal a of
        Inl e \<Rightarrow> (Inl e, s)
      | Inr dt_garmin \<Rightarrow>
          (case activityId a of
             None \<Rightarrow> (Inl KeyError, s)
           | Some activity_id \<Rightarrow>
               if \<bar>dt_garmin - dt\<bar> < 10000000 then
                 (case set_activity_name E activity_id name of
                    Some e \<Rightarrow> (Inl e, emit (GarminSetName activity_id name) s)
                  | None \<Rightarrow>
                      rename_loop E dt name activities
                        (emit (GarminSetName activity_id name) s))
               else rename_loop E dt name activities s))"

definition find_and_set_garmin_activity_name ::
  "env \<Rightarrow> state \<Rightarrow> datetime \<Rightarrow> string \<Rightarrow> (error + unit) \<times> state" where
  "find_and_set_garmin_activity_name E s dt name =
     (case get_activities_by_date E dt of
        Inl e \<Rightarrow> (Inl e, emit (GarminList dt) s)
      | Inr activities \<Rightarrow> rename_loop E dt name activities (emit (GarminList dt) s))"

text \<open>
  The handler of \<^verbatim>\<open>upload\<close>: an HTTP error with status 409 is logged as a warning and
  \<^verbatim>\<open>None\<close> is returned; every other exception goes on to the caller.
\<close>

definition except_GarthHTTPError :: "error \<Rightarrow> state \<Rightarrow> (error + unit option) \<times> state" where
  "except_GarthHTTPError e s =
     (case e of
        GarthHTTPError status_code \<Rightarrow> if status_code = 409 then (Inr None, s) else (Inl e, s)
      | _ \<Rightarrow> (Inl e, s))"

text \<open>
  \<^verbatim>\<open>upload\<close>: resume the stored session or log in, then, unless \<^verbatim>\<open>dryrun\<close>, upload
  the file \<open>fn\<close> and rename the activity when a timestamp and a name are known. The result
  is \<open>Some ()\<close> for the client's answer and \<open>None\<close> where the function returns nothing.
  \<open>fn\<close> exists (in \<^verbatim>\<open>upload_all\<close> it is the temporary file); \<^verbatim>\<open>original_path\<close> is used
  in log lines only and left out.
\<close>

definition upload ::
  "env \<Rightarrow> state \<Rightarrow> path \<Rightarrow> bool \<Rightarrow> datetime option \<Rightarrow> string \<Rightarrow> (error + unit option) \<times> state" where
  "upload E s fn dryrun dt name =
     (case (if garth_session s then (None, s)
            else (case garth_login E of
                    Some e \<Rightarrow> (Some e, emit GarthLogin s)
                  | None \<Rightarrow> (None, (emit GarthLogin s)\<lparr>garth_session := True\<rparr>))) of
        (Some e, s1) \<Rightarrow> (Inl e, s1)
      | (None, s1) \<Rightarrow>
          if \<not> dryrun then
            (case client_upload E (str fn) of
               Some e \<Rightarrow> except_GarthHTTPError e (emit (GarthUpload (str fn)) s1)
             | None \<Rightarrow>
                 (case dt of
                    Some t \<Rightarrow>
                      if name \<noteq> [] then
                        (case find_and_set_garmin_activity_name E
                                (emit (GarthUpload (str fn)) s1) t name of
                           (Inl e, s2) \<Rightarrow> except_GarthHTTPError e s2
                         | (Inr u, s2) \<Rightarrow> (Inr (Some ()), s2))
                      else (Inr (Some ()), emit (GarthUpload (str fn)) s1)
                  | None \<Rightarrow> (Inr (Some ()), emit (GarthUpload (str fn)) s1)))
          else (Inr None, s1))"

section \<open>The directory-scan pipeline\<close>

text \<open>
  The head of \<^verbatim>\<open>upload_all\<close>: the ledger is read, or an empty one is written when the
  file does not exist.
\<close>

definition load_uploaded_files :: "state \<Rightarrow> string list \<times> state" where
  "load_uploaded_files s =
     (case ledger_file s of
        Some uploaded_files \<Rightarrow> (uploaded_files, s)
      | None \<Rightarrow> ([], s\<lparr>ledger_file := Some []\<rparr>))"

text \<open>
  The body of the \<^verbatim>\<open>with NamedTemporaryFile(...)\<close> block for the candidate \<open>f\<close>. The
  handler around it is commented out in the source, so every exception leaves the block.
\<close>

definition process_file ::
  "profile_type \<Rightarrow> env \<Rightarrow> path \<Rightarrow> bool \<Rightarrow> string \<Rightarrow> state \<Rightarrow> (error + unit) \<times> state" where
  "process_file P E dir dryrun f s =
     (let fp = tempfile_name E (tempfiles s);
          s0 = s\<lparr>tempfiles := tempfiles s + 1\<rparr>;
          p = joinpath dir f
      in case get_date_from_fit P E p of
           Inl e \<Rightarrow> (Inl e, s0)
         | Inr dt \<Rightarrow>
             (case get_name_from_intervals E s0 dt of
                (Inl e, s1) \<Rightarrow> (Inl e, s1)
              | (Inr name, s1) \<Rightarrow>
                  (case edit_fit P E s1 p (Some fp) dryrun name of
                     (Inl e, s2) \<Rightarrow> (Inl e, s2)
                   | (Inr output, s2) \<Rightarrow>
                       (case upload E s2 output dryrun dt name of
                          (Inl e, s3) \<Rightarrow> (Inl e, s3)
                        | (Inr res, s3) \<Rightarrow> (Inr (), s3)))))"

text \<open>The loop \<^verbatim>\<open>for f in files\<close>, with \<^verbatim>\<open>uploaded_files.append(f)\<close> at its end.\<close>

fun upload_loop ::
  "profile_type \<Rightarrow> env \<Rightarrow> path \<Rightarrow> bool \<Rightarrow> bool \<Rightarrow> string list \<Rightarrow> string list \<Rightarrow> state
     \<Rightarrow> (error + string list) \<times> state" where
  "upload_loop P E dir preinitialise dryrun [] uploaded_files s = (Inr uploaded_files, s)"
| "upload_loop P E dir preinitialise dryrun (f # files) uploaded_files s =
     (if \<not> preinitialise then
        (case process_file P E dir dryrun f s of
           (Inl e, s') \<Rightarrow> (Inl e, s')
         | (Inr u, s') \<Rightarrow>
             upload_loop P E dir preinitialise dryrun files (uploaded_files @ [f]) s')
      else upload_loop P E dir preinitialise dryrun files (uploaded_files @ [f]) s)"

text \<open>
  \<^verbatim>\<open>upload_all\<close>: load the ledger, compute the candidates, return when there are none,
  process them, and write the ledger unless \<^verbatim>\<open>dryrun\<close>.
\<close>

definition upload_all ::
  "profile_type \<Rightarrow> env \<Rightarrow> state \<Rightarrow> path \<Rightarrow> bool \<Rightarrow> bool \<Rightarrow> (error + unit) \<times> state" where
  "upload_all P E s dir preinitialise dryrun =
     (case load_uploaded_files s of
        (uploaded_files, s0) \<Rightarrow>
          (let files = candidates dir (scandir E dir) uploaded_files
           in if files = [] then (Inr (), s0)
              else
                (case upload_loop P E dir preinitialise dryrun files uploaded_files s0 of
                   (Inl e, s1) \<Rightarrow> (Inl e, s1)
                 | (Inr uploaded_files', s1) \<Rightarrow>
                     (Inr (),
                      if \<not> dryrun then s1\<lparr>ledger_file := Some uploaded_files'\<rparr> else s1))))"

section \<open>Concrete inputs\<close>

text \<open>
  A small ride as the simulator writes it: the file id and one device carry the
  development and the Wahoo manufacturer codes; a second device is a Garmin sensor.
\<close>

definition ride_file_id :: file_id where
  "ride_file_id = \<lparr>manufacturer = Some 255, product = Some 0, garmin_product = None,
     remaining_fields = [(0, [4])], time_created = Some 1700000000000\<rparr>"

definition ride_trainer :: device_info where
  "ride_trainer = \<lparr>manufacturer = Some 32, product = Some 7, garmin_product = None,
     remaining_fields = []\<rparr>"

definition ride_sensor :: device_info where
  "ride_sensor = \<lparr>manufacturer = Some 1, product = Some 2697, garmin_product = Some 2697,
     remaining_fields = []\<rparr>"

definition ride :: "message list" where
  "ride = [DefinitionMessage 0, FileIdMessage ride_file_id,
     DefinitionMessage 23, DeviceInfoMessage ride_trainer, DeviceInfoMessage ride_sensor,
     DefinitionMessage 20, OtherMessage 20 [(3, [150])]]"

definition ride_modified :: "message list" where
  "ride_modified = [DefinitionMessage 0,
     FileIdMessage (ride_file_id\<lparr>product := Some 3122, manufacturer := Some 1\<rparr>),
     DefinitionMessage 23,
     DeviceInfoMessage (ride_trainer\<lparr>garmin_product := Some 3122, product := Some 3122,
       manufacturer := Some 1\<rparr>),
     DeviceInfoMessage ride_sensor,
     DefinitionMessage 20, OtherMessage 20 [(3, [150])]]"

text \<open>
  A builder for the concrete runs: it writes every message added to it and, before a data
  message of a kind for which no definition record has been written yet, a definition
  record of that kind.
\<close>

fun auto_define :: "profile_type \<Rightarrow> nat list \<Rightarrow> message list \<Rightarrow> message list" where
  "auto_define P defined [] = []"
| "auto_define P defined (DefinitionMessage g # messages) =
     DefinitionMessage g # auto_define P (g # defined) messages"
| "auto_define P defined (message # messages) =
     (if global_id P message \<in> set defined
      then message # auto_define P defined messages
      else DefinitionMessage (global_id P message) # message
             # auto_define P (global_id P message # defined) messages)"

text \<open>
  A directory \<^verbatim>\<open>/rides\<close> with the ride, an earlier output and a text file; the
  builder above; no credentials for the naming service; a session that resumes; an upload
  client that accepts every file.
\<close>

definition rides :: path where
  "rides = \<lparr>root = True, tail = [''rides'']\<rparr>"

definition tmp_fit :: path where
  "tmp_fit = \<lparr>root = True, tail = [''tmp'', ''tmpfit'']\<rparr>"

definition example_env :: env where
  "example_env = \<lparr>
     scandir = (\<lambda>d. [''ride.fit'', ''ride_modified.fit'', ''notes.txt'']),
     from_file = (\<lambda>p. if p = ''/rides/ride.fit'' then Inr ride
                       else if p = ''/rides/broken.fit'' then Inl FitDecodeError
                       else Inl FileNotFoundError),
     build = auto_define fit_profile [],
     INTERVALS_ATHLETEID = None,
     INTERVALS_APIKEY = None,
     activities_list = (\<lambda>t. Inr []),
     garth_login = None,
     client_upload = (\<lambda>p. None),
     get_activities_by_date = (\<lambda>t. Inr []),
     set_activity_name = (\<lambda>i n. None),
     tempfile_name = (\<lambda>k. tmp_fit)\<rparr>"

definition example_state :: state where
  "example_state = \<lparr>ledger_file = None, garth_session = True, tempfiles = 0, effects = []\<rparr>"

text \<open>The same directory with an undecodable file listed first.\<close>

definition broken_env :: env where
  "broken_env = example_env\<lparr>scandir := (\<lambda>d. [''broken.fit'', ''ride.fit''])\<rparr>"

text \<open>An upload client that answers every upload with HTTP status 409.\<close>

definition conflict_env :: env where
  "conflict_env = example_env\<lparr>client_upload := (\<lambda>p. Some (GarthHTTPError 409))\<rparr>"

text \<open>
  Both credentials of the naming service set, and the two activities it lists: one of
  another client, and one of the simulator that starts a minute after the ride.
\<close>

definition intervals_activities :: "activity list" where
  "intervals_activities =
     [\<lparr>oauth_client_name = Holds ''Strava'', start_date = Holds (Aware 1700000000000000),
        activity_name = Holds ''Lunch Ride''\<rparr>,
      \<lparr>oauth_client_name = Holds ''Training Peaks Virtual'',
        start_date = Holds (Aware 1700000060000000), activity_name = Holds ''Evening Ride''\<rparr>]"

definition intervals_env :: env where
  "intervals_env = example_env\<lparr>
     INTERVALS_ATHLETEID := Some ''i12345'',
     INTERVALS_APIKEY := Some ''key'',
     activities_list := (\<lambda>t. Inr intervals_activities)\<rparr>"

text \<open>The same, with a naming service that cannot be reached.\<close>

definition offline_env :: env where
  "offline_env = intervals_env\<lparr>activities_list := (\<lambda>t. Inl IntervalsError)\<rparr>"

text \<open>The same, with a listed activity that lacks the key of the recording client.\<close>

definition keyless_env :: env where
  "keyless_env = intervals_env\<lparr>
     activities_list := (\<lambda>t. Inr [\<lparr>oauth_client_name = Absent,
        start_date = Holds (Aware 1700000000000000),
        activity_name = Holds ''Lunch Ride''\<rparr>])\<rparr>"



section \<open>Properties of the record mutator\<close>

lemma change_file_id_Inr:
  "change_file_id P m dt = Inr (m', dt') \<Longrightarrow> change_device_info P m' = rewritten P m"
  by (auto simp: change_file_id_def rewritten_def fromtimestamp_ms_def
      split: if_splits message.splits sum.splits option.splits)

lemma change_file_id_has_time:
  "has_time m \<Longrightarrow> \<exists>m' dt'. change_file_id P m dt = Inr (m', dt')"
  by (auto simp: change_file_id_def has_time_def fromtimestamp_ms_def
      split: if_splits message.splits sum.splits option.splits)

lemma change_file_id_no_time:
  "\<not> has_time m \<Longrightarrow> change_file_id P m dt = Inl TypeError"
  by (auto simp: change_file_id_def has_time_def fromtimestamp_ms_def
      split: if_splits message.splits sum.splits option.splits)

text \<open>The loop appends the rewritten messages to the builder, in the order of the input.\<close>

lemma edit_loop_Inr:
  "edit_loop P records builder dt = Inr (out, dt') \<Longrightarrow>
     out = builder @ map (rewritten P) records"
proof (induction records arbitrary: builder dt)
  case Nil
  then show ?case by simp
next
  case (Cons m records)
  from Cons.prems obtain m' dt1 where
    c: "change_file_id P m dt = Inr (m', dt1)" and
    l: "edit_loop P records (builder @ [change_device_info P m']) dt1 = Inr (out, dt')"
    by (auto split: sum.splits)
  from Cons.IH [OF l] change_file_id_Inr [OF c] show ?case by simp
qed

text \<open>It returns exactly when no file id message lacks its timestamp.\<close>

lemma edit_loop_total:
  "list_all has_time records \<Longrightarrow> \<exists>out dt'. edit_loop P records builder dt = Inr (out, dt')"
proof (induction records arbitrary: builder dt)
  case Nil
  then show ?case by simp
next
  case (Cons m records)
  then obtain m' dt1 where c: "change_file_id P m dt = Inr (m', dt1)"
    using change_file_id_has_time [of m P dt] by auto
  from Cons obtain out dt' where
    "edit_loop P records (builder @ [change_device_info P m']) dt1 = Inr (out, dt')"
    by fastforce
  with c show ?case by simp
qed

lemma edit_loop_raises:
  "\<not> list_all has_time records \<Longrightarrow> edit_loop P records builder dt = Inl TypeError"
proof (induction records arbitrary: builder dt)
  case Nil
  then show ?case by simp
next
  case (Cons m records)
  show ?case
  proof (cases "has_time m")
    case True
    then obtain m' dt1 where c: "change_file_id P m dt = Inr (m', dt1)"
      using change_file_id_has_time [of m P dt] by auto
    with Cons True show ?thesis by simp
  next
    case False
    then show ?thesis by (simp add: change_file_id_no_time)
  qed
qed

lemma added_messages_eq:
  "added_messages P records name =
     (if list_all has_time records
      then Inr (map (rewritten P) records @
             (if name \<noteq> []
              then [WorkoutMessage \<lparr>workout_name = Some name, sport = Some (CYCLING P)\<rparr>]
              else []))
      else Inl TypeError)"
proof (cases "list_all has_time records")
  case True
  then obtain out dt' where e: "edit_loop P records [] None = Inr (out, dt')"
    using edit_loop_total by blast
  from edit_loop_Inr [OF e] e True show ?thesis
    by (simp add: added_messages_def)
next
  case False
  then show ?thesis by (simp add: added_messages_def edit_loop_raises)
qed

lemma rewritten_FileIdMessage:
  "rewritten P (FileIdMessage f) =
     (if time_created f \<noteq> None \<and> manufacturer f = Some (DEVELOPMENT P)
      then FileIdMessage (f\<lparr>product := Some (EDGE_830 P), manufacturer := Some (GARMIN P)\<rparr>)
      else FileIdMessage f)"
  by (auto simp: rewritten_def change_file_id_def change_device_info_def fromtimestamp_ms_def
      split: option.splits)

lemma rewritten_DeviceInfoMessage:
  "rewritten P (DeviceInfoMessage d) =
     (if manufacturer d = Some (DEVELOPMENT P) \<or> manufacturer d = Some 0
         \<or> manufacturer d = Some (WAHOO_FITNESS P)
      then DeviceInfoMessage
             (d\<lparr>garmin_product := Some (EDGE_830 P), product := Some (EDGE_830 P),
                manufacturer := Some (GARMIN P)\<rparr>)
      else DeviceInfoMessage d)"
  by (auto simp: rewritten_def change_file_id_def change_device_info_def fromtimestamp_ms_def
      split: option.splits)

lemma rewritten_other:
  "rewritten P (WorkoutMessage w) = WorkoutMessage w"
  "rewritten P (DefinitionMessage g) = DefinitionMessage g"
  "rewritten P (OtherMessage g fs) = OtherMessage g fs"
  by (auto simp: rewritten_def change_file_id_def change_device_info_def)

lemma global_id_rewritten: "global_id P (rewritten P m) = global_id P m"
  by (cases m)
    (simp_all add: rewritten_FileIdMessage rewritten_DeviceInfoMessage rewritten_other)

lemma added_messages_ride: "added_messages fit_profile ride [] = Inr ride_modified"
  by (simp add: added_messages_eq ride_def ride_modified_def has_time_def
      rewritten_FileIdMessage rewritten_DeviceInfoMessage rewritten_other
      ride_file_id_def ride_trainer_def ride_sensor_def fit_profile_def)

lemma is_definition_rewritten: "is_definition (rewritten P m) = is_definition m"
  by (cases m)
    (simp_all add: is_definition_def rewritten_FileIdMessage rewritten_DeviceInfoMessage
      rewritten_other)


text \<open>The builder of the concrete runs adds definition records only.\<close>

lemma data_records_auto_define:
  "data_records (auto_define P defined messages) = data_records messages"
  by (induction P defined messages rule: auto_define.induct)
    (simp_all add: data_records_def is_definition_def)

lemma build_example_env:
  "\<forall>messages. data_records (build example_env messages) = data_records messages"
  by (simp add: example_env_def data_records_auto_define)





lemma str_ride_path: "str (joinpath rides ''ride.fit'') = ''/rides/ride.fit''"
  by (simp add: joinpath_def parse_parts_def rides_def str_def)

lemma has_time_ride: "list_all has_time ride"
  by (simp add: ride_def has_time_def ride_file_id_def)

text \<open>What \<^verbatim>\<open>edit_fit\<close> does on a file it can decode and rewrite.\<close>

lemma edit_fit_eq:
  assumes "from_file E (str fit_path) = Inr records" and "list_all has_time records"
  shows "edit_fit P E s fit_path output dryrun name =
     (let output' =
            (case output of
               None \<Rightarrow> joinpath (parent fit_path) (stem fit_path @ ''_modified.fit'')
             | Some out \<Rightarrow> out);
          added = map (rewritten P) records @
            (if name \<noteq> []
             then [WorkoutMessage \<lparr>workout_name = Some name, sport = Some (CYCLING P)\<rparr>]
             else [])
      in (Inr output',
          if \<not> dryrun then emit (FitWrite (str output') (build E added)) s else s))"
  using assms by (simp add: edit_fit_def added_messages_eq Let_def)

text \<open>It returns only on such a file.\<close>

lemma edit_fit_Inr:
  assumes "edit_fit P E s fit_path output dryrun name = (Inr out_path, s')"
  shows "\<exists>records. from_file E (str fit_path) = Inr records \<and> list_all has_time records"
  using assms
  by (auto simp: edit_fit_def added_messages_eq Let_def split: sum.splits if_splits)

lemma data_records_rewritten:
  "data_records (map (rewritten P) records) = map (rewritten P) (data_records records)"
  by (induction records) (simp_all add: data_records_def is_definition_rewritten)

lemma auto_define_ride_modified: "auto_define fit_profile [] ride_modified = ride_modified"
  by (simp add: ride_modified_def fit_profile_def)

lemma rewritten_ride: "map (rewritten fit_profile) ride = ride_modified"
  by (simp add: ride_def ride_modified_def rewritten_FileIdMessage rewritten_DeviceInfoMessage
      rewritten_other ride_file_id_def ride_trainer_def ride_sensor_def fit_profile_def)

lemma edit_fit_ride_named:
  "edit_fit fit_profile example_env example_state (joinpath rides ''ride.fit'')
       (Some tmp_fit) False ''Morning''
     = (Inr tmp_fit,
        emit (FitWrite (str tmp_fit)
               (ride_modified @ [DefinitionMessage 26,
                  WorkoutMessage \<lparr>workout_name = Some ''Morning'', sport = Some 2\<rparr>]))
          example_state)"
proof -
  have f: "from_file example_env (str (joinpath rides ''ride.fit'')) = Inr ride"
    by (simp add: str_ride_path example_env_def)
  have b: "build example_env (ride_modified @
        [WorkoutMessage \<lparr>workout_name = Some ''Morning'', sport = Some (CYCLING fit_profile)\<rparr>])
      = ride_modified @ [DefinitionMessage 26,
          WorkoutMessage \<lparr>workout_name = Some ''Morning'', sport = Some 2\<rparr>]"
    by (simp add: example_env_def ride_modified_def fit_profile_def)
  from edit_fit_eq [OF f has_time_ride, of fit_profile example_state "Some tmp_fit" False
      "''Morning''"] b
  show ?thesis
    by (simp add: Let_def rewritten_ride)
qed

text \<open>
  C3, as stated, fails. The builder is made with \<^verbatim>\<open>auto_define=True\<close>: before the
  workout message it writes a definition record of its own, so with a name the written
  file has two records more than the input, not one.
\<close>

theorem edit_fit_record_count_counterexample:
  "from_file example_env (str (joinpath rides ''ride.fit'')) = Inr ride
   \<and> edit_fit fit_profile example_env example_state (joinpath rides ''ride.fit'')
       (Some tmp_fit) False ''Morning''
     = (Inr tmp_fit,
        emit (FitWrite (str tmp_fit)
               (ride_modified @ [DefinitionMessage 26,
                  WorkoutMessage \<lparr>workout_name = Some ''Morning'', sport = Some 2\<rparr>]))
          example_state)
   \<and> length (ride_modified @ [DefinitionMessage 26,
        WorkoutMessage \<lparr>workout_name = Some ''Morning'', sport = Some 2\<rparr>])
     = length ride + 2"
  by (simp add: edit_fit_ride_named str_ride_path)
    (simp add: example_env_def ride_def ride_modified_def)

text \<open>
  C3, amended. When \<^verbatim>\<open>edit_fit\<close> returns on a decoded file, the messages it has added to
  the builder are the messages of the input records, rewritten or not, one for one and in
  the original order, each of the kind it had, followed by exactly one workout message
  with the name and the cycling sport when the name is not empty, and by nothing when it
  is empty; the file it writes is what the builder makes of them. Where the builder adds
  definition records only, the data records of the written file are the data records of
  the input in their original order, followed by that workout message: their count is the
  input's, plus one for a non-empty name.
\<close>

theorem edit_fit_preserves_records:
  assumes "from_file E (str fit_path) = Inr records"
    and "edit_fit P E s fit_path output False name = (Inr out_path, s')"
  shows "\<exists>added.
      added_messages P records name = Inr added
    \<and> s' = emit (FitWrite (str out_path) (build E added)) s
    \<and> added = map (rewritten P) records @
        (if name \<noteq> []
         then [WorkoutMessage \<lparr>workout_name = Some name, sport = Some (CYCLING P)\<rparr>]
         else [])
    \<and> length added = length records + (if name \<noteq> [] then 1 else 0)
    \<and> (\<forall>i<length records. added ! i = rewritten P (records ! i)
          \<and> global_id P (added ! i) = global_id P (records ! i))
    \<and> ((\<forall>messages. data_records (build E messages) = data_records messages) \<longrightarrow>
          data_records (build E added) = map (rewritten P) (data_records records) @
            (if name \<noteq> []
             then [WorkoutMessage \<lparr>workout_name = Some name, sport = Some (CYCLING P)\<rparr>]
             else [])
        \<and> length (data_records (build E added))
            = length (data_records records) + (if name \<noteq> [] then 1 else 0))"
proof -
  let ?workout = "if name \<noteq> []
         then [WorkoutMessage \<lparr>workout_name = Some name, sport = Some (CYCLING P)\<rparr>]
         else []"
  let ?added = "map (rewritten P) records @ ?workout"
  from edit_fit_Inr [OF assms(2)] assms(1) have t: "list_all has_time records"
    by auto
  then have 1: "added_messages P records name = Inr ?added"
    by (simp add: added_messages_eq)
  from assms(2) have 2: "s' = emit (FitWrite (str out_path) (build E ?added)) s"
    by (auto simp: edit_fit_eq [OF assms(1) t] Let_def)
  have 3: "length ?added = length records + (if name \<noteq> [] then 1 else 0)"
    by simp
  have 4: "\<forall>i<length records. ?added ! i = rewritten P (records ! i)
          \<and> global_id P (?added ! i) = global_id P (records ! i)"
    by (simp add: nth_append global_id_rewritten)
  have w: "data_records ?workout = ?workout"
    by (simp add: data_records_def is_definition_def)
  have d: "data_records ?added = map (rewritten P) (data_records records) @ ?workout"
    using w by (simp add: data_records_def is_definition_rewritten filter_map o_def)
  have 5: "data_records (build E ?added) = map (rewritten P) (data_records records) @ ?workout
        \<and> length (data_records (build E ?added))
            = length (data_records records) + (if name \<noteq> [] then 1 else 0)"
    if "\<forall>messages. data_records (build E messages) = data_records messages"
    using that d by simp
  from 1 2 3 4 5 show ?thesis
    by blast
qed

theorem edit_fit_preserves_records_witness:
  "from_file example_env (str (joinpath rides ''ride.fit'')) = Inr ride
   \<and> edit_fit fit_profile example_env example_state (joinpath rides ''ride.fit'')
       (Some tmp_fit) False ''Morning''
     = (Inr tmp_fit,
        emit (FitWrite (str tmp_fit)
               (ride_modified @ [DefinitionMessage 26,
                  WorkoutMessage \<lparr>workout_name = Some ''Morning'', sport = Some 2\<rparr>]))
          example_state)
   \<and> (\<exists>added. added_messages fit_profile ride ''Morning'' = Inr added
         \<and> length added = 8
         \<and> data_records (build example_env added)
             = data_records ride_modified
               @ [WorkoutMessage \<lparr>workout_name = Some ''Morning'', sport = Some 2\<rparr>])"
proof -
  have f: "from_file example_env (str (joinpath rides ''ride.fit'')) = Inr ride"
    by (simp add: str_ride_path example_env_def)
  from edit_fit_preserves_records [OF f edit_fit_ride_named] build_example_env
  obtain added where
    a: "added_messages fit_profile ride ''Morning'' = Inr added"
    and l: "length added = length ride + (if ''Morning'' \<noteq> [] then 1 else 0)"
    and d: "data_records (build example_env added)
        = map (rewritten fit_profile) (data_records ride) @
            (if ''Morning'' \<noteq> []
             then [WorkoutMessage \<lparr>workout_name = Some ''Morning'',
                     sport = Some (CYCLING fit_profile)\<rparr>]
             else [])"
    by blast
  from l have l': "length added = 8"
    by (simp add: ride_def)
  from d have d': "data_records (build example_env added)
      = data_records ride_modified
        @ [WorkoutMessage \<lparr>workout_name = Some ''Morning'', sport = Some 2\<rparr>]"
    by (simp add: data_records_rewritten [symmetric] rewritten_ride) (simp add: fit_profile_def)
  from f edit_fit_ride_named a l' d' show ?thesis
    by blast
qed

section \<open>Properties of the directory scan\<close>

lemma join_parts_snoc: "xs \<noteq> [] \<Longrightarrow> join_parts (xs @ [n]) = join_parts xs @ ''/'' @ n"
  by (induction xs rule: join_parts.induct) simp_all

lemma str_child:
  "tail dir \<noteq> [] \<Longrightarrow> str (dir\<lparr>tail := tail dir @ [n]\<rparr>) = str dir @ ''/'' @ n"
  by (simp add: str_def join_parts_snoc)

lemma replace_prefix: "old \<noteq> [] \<Longrightarrow> replace old new (old @ s) = new @ replace old new s"
  by (cases old) simp_all

lemma replace_absent: "\<not> sublist old s \<Longrightarrow> replace old new s = s"
proof (induction s)
  case Nil
  then show ?case by auto
next
  case (Cons c s)
  then have "old \<noteq> []" "\<not> prefix old (c # s)" "\<not> sublist old s"
    by (auto simp: sublist_Cons_right)
  with Cons.IH show ?case by simp
qed

lemma strip_clean:
  assumes "s = [] \<or> (hd s \<notin> set chars \<and> last s \<notin> set chars)"
  shows "strip chars s = s"
proof (cases "s = []")
  case True
  then show ?thesis by (simp add: strip_def)
next
  case False
  with assms have h: "hd s \<notin> set chars" and l: "last s \<notin> set chars"
    by simp_all
  from h have 1: "dropWhile (\<lambda>c. c \<in> set chars) s = s"
    by (simp add: dropWhile_eq_self_iff)
  from l have 2: "dropWhile (\<lambda>c. c \<in> set chars) (rev s) = rev s"
    by (simp add: dropWhile_eq_self_iff hd_rev)
  show ?thesis by (simp add: strip_def 1 2)
qed

lemma strip_slash:
  assumes "CHR ''/'' \<notin> set n"
  shows "strip ''/'' (CHR ''/'' # n) = n"
proof -
  have "strip ''/'' (CHR ''/'' # n) = strip ''/'' n"
    by (simp add: strip_def)
  also have "\<dots> = n"
  proof (rule strip_clean)
    show "n = [] \<or> (hd n \<notin> set ''/'' \<and> last n \<notin> set ''/'')"
    proof (cases "n = []")
      case True
      then show ?thesis by simp
    next
      case False
      then have "hd n \<in> set n" "last n \<in> set n" by simp_all
      with assms show ?thesis by auto
    qed
  qed
  finally show ?thesis .
qed

text \<open>
  Where the directory's string does not occur again behind the separator, the replacement
  and the two strips give the entry name back.
\<close>

lemma strip_dir_child:
  assumes "tail dir \<noteq> []" and "CHR ''/'' \<notin> set n"
    and "\<not> sublist (str dir) (CHR ''/'' # n)"
    and "n = [] \<or> (hd n \<noteq> CHR 0x5C \<and> last n \<noteq> CHR 0x5C)"
  shows "strip_dir dir (str (dir\<lparr>tail := tail dir @ [n]\<rparr>)) = n"
proof -
  from assms(3) have ne: "str dir \<noteq> []"
    by auto
  have "replace (str dir) [] (str dir @ CHR ''/'' # n) = CHR ''/'' # n"
    using replace_prefix [OF ne] replace_absent [OF assms(3)] by simp
  with assms show ?thesis
    by (simp add: strip_dir_def str_child strip_slash strip_clean)
qed

lemma candidates_plain:
  assumes "tail dir \<noteq> []"
    and "\<forall>n\<in>set entries. CHR ''/'' \<notin> set n \<and> \<not> sublist (str dir) (CHR ''/'' # n)
           \<and> (n = [] \<or> (hd n \<noteq> CHR 0x5C \<and> last n \<noteq> CHR 0x5C))"
  shows "candidates dir entries uploaded_files =
     filter (\<lambda>n. fnmatch_fit n \<and> \<not> endswith n ''_modified.fit'' \<and> n \<notin> set uploaded_files)
       entries"
proof -
  have "map (\<lambda>n. strip_dir dir (str (dir\<lparr>tail := tail dir @ [n]\<rparr>)))
          (filter fnmatch_fit entries)
      = filter fnmatch_fit entries"
  proof (rule map_idI)
    fix n assume "n \<in> set (filter fnmatch_fit entries)"
    with assms(2) strip_dir_child [OF assms(1), of n]
    show "strip_dir dir (str (dir\<lparr>tail := tail dir @ [n]\<rparr>)) = n"
      by auto
  qed
  then have "map (strip_dir dir) (map str (glob_fit dir entries)) = filter fnmatch_fit entries"
    by (simp add: glob_fit_def o_def)
  then show ?thesis
    by (simp add: candidates_def Let_def conj_commute conj_left_commute cong: conj_cong)
qed


lemma candidates_after:
  "candidates dir entries (uploaded_files @ candidates dir entries uploaded_files) = []"
  by (auto simp: candidates_def Let_def filter_empty_conv)

lemma candidates_unsorted:
  "candidates rides [''b.fit'', ''a.fit''] [] = [''b.fit'', ''a.fit'']"
  by (simp add: candidates_def glob_fit_def fnmatch_fit_def endswith_def lower_def
      suffix_to_prefix rides_def str_def strip_dir_def strip_def Let_def)

text \<open>
  C5, as stated, fails: the list follows the order in which the directory is listed, and
  nothing sorts it. Here the directory lists \<^verbatim>\<open>b.fit\<close> before \<^verbatim>\<open>a.fit\<close>, and so does
  the candidate list.
\<close>

theorem candidates_order_counterexample:
  "candidates rides [''b.fit'', ''a.fit''] [] = [''b.fit'', ''a.fit'']
   \<and> \<not> sorted (candidates rides [''b.fit'', ''a.fit''] [])"
  by (simp add: candidates_unsorted less_char_def)

text \<open>
  C5, amended. For a directory that is neither \<^verbatim>\<open>.\<close> nor \<^verbatim>\<open>/\<close>, whose path string
  does not occur in a separator followed by an entry name, and whose entry names neither
  start nor end with a backslash, the candidate list is the directory listing, in the
  order of the listing, restricted to the names that match \<^verbatim>\<open>*.fit\<close> without regard to
  case, do not end with \<^verbatim>\<open>_modified.fit\<close> and are not in the ledger.
\<close>

theorem candidates_listing_order:
  assumes "tail dir \<noteq> []"
    and "\<forall>n\<in>set entries. CHR ''/'' \<notin> set n \<and> \<not> sublist (str dir) (CHR ''/'' # n)
           \<and> (n = [] \<or> (hd n \<noteq> CHR 0x5C \<and> last n \<noteq> CHR 0x5C))"
  shows "candidates dir entries uploaded_files =
     filter (\<lambda>n. fnmatch_fit n \<and> \<not> endswith n ''_modified.fit'' \<and> n \<notin> set uploaded_files)
       entries"
  using assms by (rule candidates_plain)

theorem candidates_listing_order_witness:
  "tail rides \<noteq> []
   \<and> candidates rides [''ride.FIT'', ''ride_modified.fit'', ''notes.txt'', ''b.fit'', ''a.fit'']
       [''b.fit'']
     = [''ride.FIT'', ''a.fit'']"
proof -
  let ?entries = "[''ride.FIT'', ''ride_modified.fit'', ''notes.txt'', ''b.fit'', ''a.fit'']"
  have t: "tail rides \<noteq> []"
    by (simp add: rides_def)
  have e: "\<forall>n\<in>set ?entries. CHR ''/'' \<notin> set n \<and> \<not> sublist (str rides) (CHR ''/'' # n)
           \<and> (n = [] \<or> (hd n \<noteq> CHR 0x5C \<and> last n \<noteq> CHR 0x5C))"
    by (simp add: rides_def str_def sublist_Cons_right)
  from candidates_listing_order [OF t e, of "[''b.fit'']"] t show ?thesis
    by (simp add: fnmatch_fit_def endswith_def lower_def suffix_to_prefix)
qed

section \<open>The default output path\<close>











section \<open>Properties of the name lookup\<close>

text \<open>
  C9, as stated, fails. With both credentials set, the lookup raises when there is no
  timestamp (\<^verbatim>\<open>dt.strftime\<close> on \<^verbatim>\<open>None\<close>), an exception of the service call is not
  caught, and a listed activity without the key of the recording client raises
  \<^verbatim>\<open>KeyError\<close> although no activity matches.
\<close>

theorem lookup_raises_counterexample:
  "INTERVALS_ATHLETEID intervals_env \<noteq> None \<and> INTERVALS_APIKEY intervals_env \<noteq> None
   \<and> get_name_from_intervals intervals_env example_state None
       = (Inl AttributeError, example_state)
   \<and> INTERVALS_ATHLETEID offline_env \<noteq> None \<and> INTERVALS_APIKEY offline_env \<noteq> None
   \<and> fst (get_name_from_intervals offline_env example_state (Some 1700000000000000))
       = Inl IntervalsError
   \<and> INTERVALS_ATHLETEID keyless_env \<noteq> None \<and> INTERVALS_APIKEY keyless_env \<noteq> None
   \<and> fst (get_name_from_intervals keyless_env example_state (Some 1700000000000000))
       = Inl KeyError"
  by (simp add: get_name_from_intervals_def offline_env_def keyless_env_def intervals_env_def
      example_env_def)

lemma find_activity_none:
  assumes "\<forall>a\<in>set activities. oauth_client_name a \<noteq> Absent
      \<and> (oauth_client_name a = Holds ''Training Peaks Virtual'' \<longrightarrow>
           (\<exists>u. start_date a = Holds (Aware u) \<and> 15000000 < \<bar>u - t\<bar>))"
  shows "find_activity t activities = Inr []"
  using assms
proof (induction activities)
  case Nil
  then show ?case by simp
next
  case (Cons a activities)
  then have r: "find_activity t activities = Inr []"
    by simp
  from Cons.prems have p: "oauth_client_name a \<noteq> Absent"
    and q: "oauth_client_name a = Holds ''Training Peaks Virtual'' \<longrightarrow>
           (\<exists>u. start_date a = Holds (Aware u) \<and> 15000000 < \<bar>u - t\<bar>)"
    by simp_all
  show ?case
  proof (cases "oauth_client_name a")
    case Absent
    with p show ?thesis by simp
  next
    case Null
    with r show ?thesis by simp
  next
    case (Holds client)
    show ?thesis
    proof (cases "client = ''Training Peaks Virtual''")
      case True
      with Holds q obtain u where "start_date a = Holds (Aware u)" and "15000000 < \<bar>u - t\<bar>"
        by auto
      with Holds True r show ?thesis by simp
    next
      case False
      with Holds r show ?thesis by simp
    qed
  qed
qed

text \<open>
  C9, amended. Without one of the two credentials the lookup returns the empty string for
  every timestamp value, a missing one included, and calls nothing. With both credentials,
  a timestamp and an activity list answered by the service in which every activity has the
  key of the recording client and every activity of the simulator a start date that is an
  aware instant, the lookup returns the empty string when none of the simulator's
  activities starts within 15 seconds of the timestamp. In both cases no error is raised.
\<close>

theorem lookup_best_effort:
  "(INTERVALS_ATHLETEID E = None \<or> INTERVALS_APIKEY E = None \<longrightarrow>
      get_name_from_intervals E s dt = (Inr [], s))
   \<and> (INTERVALS_ATHLETEID E \<noteq> None \<and> INTERVALS_APIKEY E \<noteq> None
       \<and> activities_list E t = Inr activities
       \<and> (\<forall>a\<in>set activities. oauth_client_name a \<noteq> Absent
            \<and> (oauth_client_name a = Holds ''Training Peaks Virtual'' \<longrightarrow>
                 (\<exists>u. start_date a = Holds (Aware u) \<and> 15000000 < \<bar>u - t\<bar>))) \<longrightarrow>
      get_name_from_intervals E s (Some t) = (Inr [], emit (IntervalsList t) s))"
  using find_activity_none [of activities t]
  by (auto simp: get_name_from_intervals_def)

theorem lookup_best_effort_witness:
  "INTERVALS_ATHLETEID example_env = None
   \<and> get_name_from_intervals example_env example_state None = (Inr [], example_state)
   \<and> INTERVALS_ATHLETEID intervals_env \<noteq> None \<and> INTERVALS_APIKEY intervals_env \<noteq> None
   \<and> activities_list intervals_env 1700000000000000 = Inr intervals_activities
   \<and> map oauth_client_name intervals_activities
       = [Holds ''Strava'', Holds ''Training Peaks Virtual'']
   \<and> map start_date intervals_activities
       = [Holds (Aware 1700000000000000), Holds (Aware 1700000060000000)]
   \<and> get_name_from_intervals intervals_env example_state (Some 1700000000000000)
       = (Inr [], emit (IntervalsList 1700000000000000) example_state)"
proof -
  have 1: "INTERVALS_ATHLETEID example_env = None"
    by (simp add: example_env_def)
  have 2: "INTERVALS_ATHLETEID intervals_env \<noteq> None \<and> INTERVALS_APIKEY intervals_env \<noteq> None"
    by (simp add: intervals_env_def)
  have 3: "activities_list intervals_env 1700000000000000 = Inr intervals_activities"
    by (simp add: intervals_env_def)
  have 4: "\<forall>a\<in>set intervals_activities. oauth_client_name a \<noteq> Absent
      \<and> (oauth_client_name a = Holds ''Training Peaks Virtual'' \<longrightarrow>
           (\<exists>u. start_date a = Holds (Aware u) \<and> 15000000 < \<bar>u - 1700000000000000\<bar>))"
    by (simp add: intervals_activities_def)
  have 5: "map oauth_client_name intervals_activities
       = [Holds ''Strava'', Holds ''Training Peaks Virtual'']"
    and 6: "map start_date intervals_activities
       = [Holds (Aware 1700000000000000), Holds (Aware 1700000060000000)]"
    by (simp_all add: intervals_activities_def)
  from lookup_best_effort [of example_env example_state None 0 "[]"] 1
  have a: "get_name_from_intervals example_env example_state None = (Inr [], example_state)"
    by blast
  from lookup_best_effort [of intervals_env example_state None 1700000000000000
      intervals_activities] 2 3 4
  have b: "get_name_from_intervals intervals_env example_state (Some 1700000000000000)
       = (Inr [], emit (IntervalsList 1700000000000000) example_state)"
    by blast
  from 1 2 3 5 6 a b show ?thesis by blast
qed

section \<open>What a run leaves unchanged\<close>

lemma ledger_file_emit [simp]: "ledger_file (emit e s) = ledger_file s"
  by (simp add: emit_def)

lemma garth_session_emit [simp]: "garth_session (emit e s) = garth_session s"
  by (simp add: emit_def)

lemma effects_emit [simp]: "effects (emit e s) = effects s @ [e]"
  by (simp add: emit_def)

lemma get_name_frame:
  assumes "get_name_from_intervals E s dt = (r, s')"
  shows "ledger_file s' = ledger_file s" and "garth_session s' = garth_session s"
    and "filter persistent (effects s') = filter persistent (effects s)"
  using assms
  by (auto simp: get_name_from_intervals_def persistent_def
      split: option.splits sum.splits if_splits)

lemma edit_fit_frame:
  assumes "edit_fit P E s fit_path output dryrun name = (r, s')"
  shows "ledger_file s' = ledger_file s" and "garth_session s' = garth_session s"
    and "dryrun \<Longrightarrow> s' = s"
  using assms
  by (auto simp: edit_fit_def Let_def split: option.splits sum.splits if_splits)

lemma rename_loop_ledger:
  "rename_loop E dt name activities s = (r, s') \<Longrightarrow> ledger_file s' = ledger_file s"
  by (induction activities arbitrary: s) (auto split: option.splits sum.splits if_splits)

lemma find_and_set_ledger:
  "find_and_set_garmin_activity_name E s dt name = (r, s') \<Longrightarrow> ledger_file s' = ledger_file s"
  by (auto simp: find_and_set_garmin_activity_name_def split: sum.splits
      dest: rename_loop_ledger)

lemma except_frame:
  "except_GarthHTTPError e s = (r, s') \<Longrightarrow> s' = s"
  by (auto simp: except_GarthHTTPError_def split: error.splits if_splits)

lemma upload_ledger:
  assumes "upload E s fn dryrun dt name = (r, s')"
  shows "ledger_file s' = ledger_file s"
  using assms
  by (auto simp: upload_def split: option.splits sum.splits prod.splits if_splits
      dest!: except_frame find_and_set_ledger)


lemma process_file_ledger:
  assumes "process_file P E dir dryrun f s = (r, s')"
  shows "ledger_file s' = ledger_file s"
proof -
  let ?s0 = "s\<lparr>tempfiles := tempfiles s + 1\<rparr>"
  have l0: "ledger_file ?s0 = ledger_file s" by simp
  show ?thesis
  proof (cases "get_date_from_fit P E (joinpath dir f)")
    case (Inl e)
    with assms l0 show ?thesis by (auto simp: process_file_def Let_def)
  next
    case (Inr dt)
    obtain r1 s1 where n: "get_name_from_intervals E ?s0 dt = (r1, s1)"
      by (cases "get_name_from_intervals E ?s0 dt")
    from get_name_frame(1) [OF n] l0 have l1: "ledger_file s1 = ledger_file s" by simp
    show ?thesis
    proof (cases r1)
      case (Inl e)
      with assms Inr n l1 show ?thesis by (auto simp: process_file_def Let_def)
    next
      case name: (Inr name)
      obtain r2 s2 where
        e: "edit_fit P E s1 (joinpath dir f) (Some (tempfile_name E (tempfiles s))) dryrun name
             = (r2, s2)"
        by (cases "edit_fit P E s1 (joinpath dir f) (Some (tempfile_name E (tempfiles s)))
             dryrun name")
      from edit_fit_frame(1) [OF e] l1 have l2: "ledger_file s2 = ledger_file s" by simp
      show ?thesis
      proof (cases r2)
        case (Inl e')
        with assms Inr n name e l2 show ?thesis by (auto simp: process_file_def Let_def)
      next
        case out: (Inr out)
        obtain r3 s3 where u: "upload E s2 out dryrun dt name = (r3, s3)"
          by (cases "upload E s2 out dryrun dt name")
        from upload_ledger [OF u] l2 have "ledger_file s3 = ledger_file s" by simp
        with assms Inr n name e out u show ?thesis
          by (cases r3) (auto simp: process_file_def Let_def)
      qed
    qed
  qed
qed


lemma upload_loop_ledger:
  "upload_loop P E dir preinitialise dryrun files uploaded_files s = (r, s')
     \<Longrightarrow> ledger_file s' = ledger_file s"
proof (induction files arbitrary: uploaded_files s)
  case Nil
  then show ?case by simp
next
  case (Cons f files)
  show ?case
  proof (cases preinitialise)
    case True
    with Cons.prems Cons.IH [of "uploaded_files @ [f]" s] show ?thesis by simp
  next
    case False
    obtain r1 s1 where p: "process_file P E dir dryrun f s = (r1, s1)"
      by (cases "process_file P E dir dryrun f s")
    note l = process_file_ledger [OF p]
    show ?thesis
    proof (cases r1)
      case (Inl e)
      from Cons.prems l show ?thesis by (simp add: False p Inl)
    next
      case (Inr u)
      from Cons.prems have "upload_loop P E dir preinitialise dryrun files
          (uploaded_files @ [f]) s1 = (r, s')"
        by (simp add: False p Inr)
      from Cons.IH [OF this] l show ?thesis by simp
    qed
  qed
qed


text \<open>When the loop returns, the ledger in memory is the old one followed by the candidates.\<close>

lemma upload_loop_Inr:
  "upload_loop P E dir preinitialise dryrun files uploaded_files s = (Inr uploaded_files', s')
     \<Longrightarrow> uploaded_files' = uploaded_files @ files"
proof (induction files arbitrary: uploaded_files s)
  case Nil
  then show ?case by simp
next
  case (Cons f files)
  show ?case
  proof (cases preinitialise)
    case True
    with Cons.prems Cons.IH [of "uploaded_files @ [f]" s] show ?thesis by simp
  next
    case False
    obtain r s1 where p: "process_file P E dir dryrun f s = (r, s1)"
      by (cases "process_file P E dir dryrun f s")
    from Cons.prems Cons.IH [of "uploaded_files @ [f]" s1] show ?thesis
      by (cases r) (simp_all add: False p)
  qed
qed


section \<open>Runs over the concrete directory\<close>

lemma candidates_example:
  "candidates rides [''ride.fit'', ''ride_modified.fit'', ''notes.txt''] [] = [''ride.fit'']"
  by (simp add: candidates_def glob_fit_def fnmatch_fit_def endswith_def lower_def
      suffix_to_prefix rides_def str_def strip_dir_def strip_def Let_def)

lemma candidates_broken:
  "candidates rides [''broken.fit'', ''ride.fit''] [] = [''broken.fit'', ''ride.fit'']"
  by (simp add: candidates_def glob_fit_def fnmatch_fit_def endswith_def lower_def
      suffix_to_prefix rides_def str_def strip_dir_def strip_def Let_def)

lemma str_broken_path: "str (joinpath rides ''broken.fit'') = ''/rides/broken.fit''"
  by (simp add: joinpath_def parse_parts_def rides_def str_def)

lemma str_tmp_fit: "str tmp_fit = ''/tmp/tmpfit''"
  by (simp add: tmp_fit_def str_def)

lemma get_date_loop_ride: "get_date_loop fit_profile ride = Inr (Some 1700000000000000)"
  by (simp add: ride_def fit_profile_def ride_file_id_def fromtimestamp_ms_def)

text \<open>A dry run over the directory: the ledger file is created, empty, and stays so.\<close>

lemma upload_all_dry_example:
  "upload_all fit_profile example_env example_state rides False True
     = (Inr (), example_state\<lparr>ledger_file := Some [], tempfiles := 1\<rparr>)"
  by (simp add: upload_all_def load_uploaded_files_def candidates_example process_file_def
      get_date_from_fit_def str_ride_path get_date_loop_ride get_name_from_intervals_def
      edit_fit_def added_messages_ride auto_define_ride_modified upload_def Let_def
      example_env_def example_state_def)

text \<open>A run that meets the undecodable file first: the exception leaves the run.\<close>

lemma upload_all_broken:
  "upload_all fit_profile broken_env example_state rides False False
     = (Inl FitDecodeError, example_state\<lparr>ledger_file := Some [], tempfiles := 1\<rparr>)"
  by (simp add: upload_all_def load_uploaded_files_def candidates_broken process_file_def
      get_date_from_fit_def str_broken_path Let_def broken_env_def example_env_def
      example_state_def)


text \<open>A run whose upload is answered with a conflict.\<close>

lemma upload_all_conflict:
  "upload_all fit_profile conflict_env example_state rides False False
     = (Inr (), \<lparr>ledger_file = Some [''ride.fit''], garth_session = True, tempfiles = 1,
          effects = [FitWrite ''/tmp/tmpfit'' ride_modified, GarthUpload ''/tmp/tmpfit'']\<rparr>)"
  by (simp add: upload_all_def load_uploaded_files_def candidates_example process_file_def
      get_date_from_fit_def str_ride_path get_date_loop_ride get_name_from_intervals_def
      edit_fit_def added_messages_ride auto_define_ride_modified upload_def
      except_GarthHTTPError_def str_tmp_fit Let_def conflict_env_def example_env_def
      example_state_def emit_def)

section \<open>Properties of the pipeline\<close>

text \<open>
  C4, as stated, fails. After a dry run the ledger file holds none of the processed names,
  so a second run finds the same candidate again; and a run left by an exception writes no
  ledger either.
\<close>

theorem second_run_counterexample:
  "upload_all fit_profile example_env example_state rides False True
     = (Inr (), example_state\<lparr>ledger_file := Some [], tempfiles := 1\<rparr>)
   \<and> candidates rides (scandir example_env rides)
       (fst (load_uploaded_files (example_state\<lparr>ledger_file := Some [], tempfiles := 1\<rparr>)))
     = [''ride.fit'']
   \<and> upload_all fit_profile broken_env example_state rides False False
     = (Inl FitDecodeError, example_state\<lparr>ledger_file := Some [], tempfiles := 1\<rparr>)
   \<and> candidates rides (scandir broken_env rides)
       (fst (load_uploaded_files (example_state\<lparr>ledger_file := Some [], tempfiles := 1\<rparr>)))
     = [''broken.fit'', ''ride.fit'']"
proof -
  have "candidates rides (scandir example_env rides)
       (fst (load_uploaded_files (example_state\<lparr>ledger_file := Some [], tempfiles := 1\<rparr>)))
     = [''ride.fit'']"
    by (simp add: load_uploaded_files_def example_env_def candidates_example)
  moreover have "candidates rides (scandir broken_env rides)
       (fst (load_uploaded_files (example_state\<lparr>ledger_file := Some [], tempfiles := 1\<rparr>)))
     = [''broken.fit'', ''ride.fit'']"
    by (simp add: load_uploaded_files_def broken_env_def example_env_def candidates_broken)
  ultimately show ?thesis
    using upload_all_dry_example upload_all_broken by simp
qed

text \<open>
  C4, amended. When a run of \<^verbatim>\<open>upload_all\<close> that is not a dry run returns without an
  exception, a second run over the unchanged directory computes an empty candidate list
  and returns at once, leaving everything as it is: every name the first run processed is
  in the ledger file.
\<close>

theorem second_run_processes_nothing:
  assumes "upload_all P E s dir preinitialise False = (Inr (), s1)"
  shows "candidates dir (scandir E dir) (fst (load_uploaded_files s1)) = []
    \<and> upload_all P E s1 dir preinitialise' dryrun' = (Inr (), s1)"
proof -
  obtain ul s0 where l: "load_uploaded_files s = (ul, s0)"
    by (cases "load_uploaded_files s")
  then have l0: "ledger_file s0 = Some ul"
    by (auto simp: load_uploaded_files_def split: option.splits)
  let ?files = "candidates dir (scandir E dir) ul"
  have "\<exists>ul'. ledger_file s1 = Some ul' \<and> candidates dir (scandir E dir) ul' = []"
  proof (cases "?files = []")
    case True
    with assms l have "s1 = s0" by (simp add: upload_all_def)
    with l0 True show ?thesis by simp
  next
    case False
    with assms l obtain ul' s' where
      u: "upload_loop P E dir preinitialise False ?files ul s0 = (Inr ul', s')"
      and s1: "s1 = s'\<lparr>ledger_file := Some ul'\<rparr>"
      by (auto simp: upload_all_def Let_def split: prod.splits sum.splits)
    from upload_loop_Inr [OF u] s1 show ?thesis
      by (simp add: candidates_after)
  qed
  then obtain ul' where a: "ledger_file s1 = Some ul'"
    and b: "candidates dir (scandir E dir) ul' = []"
    by blast
  from a have "load_uploaded_files s1 = (ul', s1)"
    by (simp add: load_uploaded_files_def)
  with b show ?thesis
    by (simp add: upload_all_def)
qed

theorem second_run_processes_nothing_witness:
  "upload_all fit_profile conflict_env example_state rides False False
     = (Inr (), \<lparr>ledger_file = Some [''ride.fit''], garth_session = True, tempfiles = 1,
          effects = [FitWrite ''/tmp/tmpfit'' ride_modified, GarthUpload ''/tmp/tmpfit'']\<rparr>)
   \<and> candidates rides (scandir conflict_env rides)
       (fst (load_uploaded_files \<lparr>ledger_file = Some [''ride.fit''], garth_session = True,
          tempfiles = 1,
          effects = [FitWrite ''/tmp/tmpfit'' ride_modified, GarthUpload ''/tmp/tmpfit'']\<rparr>))
     = []"
  using second_run_processes_nothing [OF upload_all_conflict] upload_all_conflict
  by simp

text \<open>
  C6, as stated, fails: the handler around the processing of a file is commented out.
  With the undecodable file listed first, the run ends with the decoder's exception, the
  good file behind it is never processed (no file is written, nothing is uploaded), and
  the ledger file stays empty.
\<close>

theorem decode_failure_counterexample:
  "candidates rides (scandir broken_env rides) [] = [''broken.fit'', ''ride.fit'']
   \<and> from_file broken_env (str (joinpath rides ''broken.fit'')) = Inl FitDecodeError
   \<and> fst (upload_all fit_profile broken_env example_state rides False False)
       = Inl FitDecodeError
   \<and> effects (snd (upload_all fit_profile broken_env example_state rides False False)) = []
   \<and> ledger_file (snd (upload_all fit_profile broken_env example_state rides False False))
       = Some []"
  by (simp add: upload_all_broken str_broken_path candidates_broken)
    (simp add: broken_env_def example_env_def example_state_def candidates_broken)

lemma process_file_decode_failure:
  assumes "from_file E (str (joinpath dir f)) = Inl e"
  shows "process_file P E dir dryrun f s = (Inl e, s\<lparr>tempfiles := tempfiles s + 1\<rparr>)"
  using assms by (simp add: process_file_def get_date_from_fit_def Let_def)

lemma upload_loop_aborts:
  assumes "from_file E (str (joinpath dir f)) = Inl e"
  shows "f \<in> set files \<Longrightarrow>
     \<exists>e' s'. upload_loop P E dir False dryrun files uploaded_files s = (Inl e', s')"
proof (induction files arbitrary: uploaded_files s)
  case Nil
  then show ?case by simp
next
  case (Cons g files)
  obtain r1 s1 where p: "process_file P E dir dryrun g s = (r1, s1)"
    by (cases "process_file P E dir dryrun g s")
  show ?case
  proof (cases r1)
    case (Inl e')
    then show ?thesis by (simp add: p)
  next
    case (Inr u)
    with p process_file_decode_failure [OF assms, of P dryrun s] have "g \<noteq> f"
      by auto
    with Cons.prems have "f \<in> set files" by simp
    from Cons.IH [OF this, of "uploaded_files @ [g]" s1] show ?thesis
      by (simp add: p Inr)
  qed
qed

text \<open>
  C6, amended. In a batch run that is not a pre-initialisation, a candidate whose decoding
  fails ends the loop at once with the decoder's exception: the candidates behind it are
  not processed and the file is not added to the ledger. When such a file is among the
  candidates, \<^verbatim>\<open>upload_all\<close> ends with an exception and the ledger file is what it was
  when the run loaded it: nothing of this batch is recorded.
\<close>

theorem decode_failure_aborts:
  assumes "from_file E (str (joinpath dir f)) = Inl e"
  shows "upload_loop P E dir False dryrun (f # files) uploaded_files s
      = (Inl e, s\<lparr>tempfiles := tempfiles s + 1\<rparr>)
    \<and> (f \<in> set (candidates dir (scandir E dir) (fst (load_uploaded_files s))) \<longrightarrow>
        (\<exists>e' s'. upload_all P E s dir False dryrun = (Inl e', s')
           \<and> ledger_file s' = Some (fst (load_uploaded_files s))))"
proof -
  have 1: "upload_loop P E dir False dryrun (f # files) uploaded_files s
      = (Inl e, s\<lparr>tempfiles := tempfiles s + 1\<rparr>)"
    by (simp add: process_file_decode_failure [OF assms])
  have 2: "\<exists>e' s'. upload_all P E s dir False dryrun = (Inl e', s')
           \<and> ledger_file s' = Some (fst (load_uploaded_files s))"
    if c: "f \<in> set (candidates dir (scandir E dir) (fst (load_uploaded_files s)))"
  proof -
    let ?ul = "fst (load_uploaded_files s)"
    let ?s0 = "snd (load_uploaded_files s)"
    let ?files = "candidates dir (scandir E dir) ?ul"
    have l0: "ledger_file ?s0 = Some ?ul"
      by (simp add: load_uploaded_files_def split: option.splits)
    from c have ne: "?files \<noteq> []" by auto
    from upload_loop_aborts [OF assms c, of P dryrun ?ul ?s0] obtain e' s' where
      u: "upload_loop P E dir False dryrun ?files ?ul ?s0 = (Inl e', s')"
      by blast
    from upload_loop_ledger [OF u] l0 have "ledger_file s' = Some ?ul"
      by simp
    moreover from ne have "upload_all P E s dir False dryrun = (Inl e', s')"
      by (simp add: upload_all_def Let_def split_beta u)
    ultimately show ?thesis by blast
  qed
  from 1 2 show ?thesis by blast
qed

theorem decode_failure_aborts_witness:
  "from_file broken_env (str (joinpath rides ''broken.fit'')) = Inl FitDecodeError
   \<and> ''broken.fit'' \<in> set (candidates rides (scandir broken_env rides)
        (fst (load_uploaded_files example_state)))
   \<and> upload_loop fit_profile broken_env rides False False [''broken.fit'', ''ride.fit''] []
        example_state
      = (Inl FitDecodeError, example_state\<lparr>tempfiles := tempfiles example_state + 1\<rparr>)
   \<and> (\<exists>e' s'. upload_all fit_profile broken_env example_state rides False False = (Inl e', s')
        \<and> ledger_file s' = Some [])"
proof -
  have f: "from_file broken_env (str (joinpath rides ''broken.fit'')) = Inl FitDecodeError"
    by (simp add: str_broken_path broken_env_def example_env_def)
  have l: "fst (load_uploaded_files example_state) = []"
    by (simp add: load_uploaded_files_def example_state_def)
  have c: "''broken.fit'' \<in> set (candidates rides (scandir broken_env rides)
        (fst (load_uploaded_files example_state)))"
    by (simp add: l broken_env_def example_env_def candidates_broken)
  from decode_failure_aborts [OF f, where P = fit_profile and dryrun = False
      and files = "[''ride.fit'']" and uploaded_files = "[]" and s = example_state] c l
  show ?thesis
    using f by simp
qed





lemma get_date_loop_total:
  "list_all has_time records \<Longrightarrow> \<exists>dt. get_date_loop P records = Inr dt"
  by (induction records)
    (auto simp: has_time_def fromtimestamp_ms_def split: message.splits)

lemma upload_conflict:
  assumes "garth_session s \<or> garth_login E = None"
    and "client_upload E (str fn) = Some (GarthHTTPError 409)"
  shows "\<exists>s'. upload E s fn False dt name = (Inr None, s')"
  using assms by (auto simp: upload_def except_GarthHTTPError_def)

text \<open>
  C8. When the upload of a candidate is answered with a conflict (HTTP status 409), with
  the decoding, the name lookup and the login (where one is needed) done without error,
  \<^verbatim>\<open>upload\<close> returns without an exception, the processing of the file returns, and the
  loop goes on with the remaining candidates and the file name appended to the ledger:
  whenever the loop returns, the name is in the ledger it returns.
\<close>

theorem upload_conflict_is_success:
  assumes "from_file E (str (joinpath dir f)) = Inr records"
    and "list_all has_time records"
    and "get_date_loop P records = Inr dt"
    and "fst (get_name_from_intervals E (s\<lparr>tempfiles := tempfiles s + 1\<rparr>) dt) = Inr name"
    and "garth_session s \<or> garth_login E = None"
    and "client_upload E (str (tempfile_name E (tempfiles s))) = Some (GarthHTTPError 409)"
  shows "\<exists>s2 s3.
        upload E s2 (tempfile_name E (tempfiles s)) False dt name = (Inr None, s3)
      \<and> process_file P E dir False f s = (Inr (), s3)
      \<and> upload_loop P E dir False False (f # files) uploaded_files s
          = upload_loop P E dir False False files (uploaded_files @ [f]) s3
      \<and> (\<forall>r s'. upload_loop P E dir False False (f # files) uploaded_files s = (Inr r, s')
            \<longrightarrow> f \<in> set r)"
proof -
  let ?s0 = "s\<lparr>tempfiles := tempfiles s + 1\<rparr>"
  let ?fp = "tempfile_name E (tempfiles s)"
  obtain s1 where n: "get_name_from_intervals E ?s0 dt = (Inr name, s1)"
    using assms(4) by (cases "get_name_from_intervals E ?s0 dt") simp
  from get_name_frame(2) [OF n] have g1: "garth_session s1 = garth_session s"
    by simp
  obtain s2 where e: "edit_fit P E s1 (joinpath dir f) (Some ?fp) False name = (Inr ?fp, s2)"
    using edit_fit_eq [OF assms(1,2), of P s1 "Some ?fp" False name] by (simp add: Let_def)
  from edit_fit_frame(2) [OF e] g1 assms(5) have "garth_session s2 \<or> garth_login E = None"
    by simp
  from upload_conflict [OF this assms(6)] obtain s3 where
    u: "upload E s2 ?fp False dt name = (Inr None, s3)"
    by blast
  from assms(1,3) have d: "get_date_from_fit P E (joinpath dir f) = Inr dt"
    by (simp add: get_date_from_fit_def)
  have p: "process_file P E dir False f s = (Inr (), s3)"
    by (simp only: process_file_def Let_def d sum.case n prod.case e u)
  have l: "upload_loop P E dir False False (f # files) uploaded_files s
          = upload_loop P E dir False False files (uploaded_files @ [f]) s3"
    by (simp add: p)
  have "f \<in> set r"
    if t: "upload_loop P E dir False False (f # files) uploaded_files s = (Inr r, s')" for r s'
  proof -
    from t have "upload_loop P E dir False False files (uploaded_files @ [f]) s3 = (Inr r, s')"
      unfolding l .
    from upload_loop_Inr [OF this] show ?thesis by simp
  qed
  with u p l show ?thesis by blast
qed

theorem upload_conflict_is_success_witness:
  "from_file conflict_env (str (joinpath rides ''ride.fit'')) = Inr ride
   \<and> list_all has_time ride
   \<and> get_date_loop fit_profile ride = Inr (Some 1700000000000000)
   \<and> garth_session example_state
   \<and> client_upload conflict_env (str (tempfile_name conflict_env (tempfiles example_state)))
       = Some (GarthHTTPError 409)
   \<and> (\<exists>s3. process_file fit_profile conflict_env rides False ''ride.fit'' example_state
             = (Inr (), s3)
         \<and> upload_loop fit_profile conflict_env rides False False [''ride.fit''] []
             example_state = (Inr [''ride.fit''], s3))"
proof -
  have f: "from_file conflict_env (str (joinpath rides ''ride.fit'')) = Inr ride"
    by (simp add: str_ride_path conflict_env_def example_env_def)
  have n: "fst (get_name_from_intervals conflict_env
      (example_state\<lparr>tempfiles := tempfiles example_state + 1\<rparr>) (Some 1700000000000000))
      = Inr []"
    by (simp add: get_name_from_intervals_def conflict_env_def example_env_def)
  have g: "garth_session example_state \<or> garth_login conflict_env = None"
    and g': "garth_session example_state"
    by (simp_all add: example_state_def)
  have c: "client_upload conflict_env (str (tempfile_name conflict_env (tempfiles example_state)))
       = Some (GarthHTTPError 409)"
    by (simp add: conflict_env_def)
  from upload_conflict_is_success [OF f has_time_ride get_date_loop_ride n g c,
      where files = "[]" and uploaded_files = "[]"]
  obtain s3 where
    "process_file fit_profile conflict_env rides False ''ride.fit'' example_state = (Inr (), s3)"
    and "upload_loop fit_profile conflict_env rides False False [''ride.fit''] [] example_state
      = upload_loop fit_profile conflict_env rides False False [] ([] @ [''ride.fit'']) s3"
    by blast
  then have "\<exists>s3. process_file fit_profile conflict_env rides False ''ride.fit'' example_state
             = (Inr (), s3)
         \<and> upload_loop fit_profile conflict_env rides False False [''ride.fit''] []
             example_state = (Inr [''ride.fit''], s3)"
    by simp
  with f has_time_ride get_date_loop_ride g' c show ?thesis by blast
qed

end
